theory Spec2Isabelle
  imports Main "HOL-Library.Sublist" "HOL-Library.Multiset"
begin

section \<open>Python values, dictionaries and strings\<close>

text \<open>
  The JWT payload is a Python \<^verbatim>\<open>dict\<close> from claim names to JSON values. The values that
  the two servers write or read are strings, integers and \<^verbatim>\<open>None\<close>. A dictionary is an
  association list read with \<open>map_of\<close>; \<^verbatim>\<open>d.get(k, default)\<close> is \<open>dict_get\<close>.
\<close>

datatype pyval = PyStr string | PyInt int | PyNone

type_synonym pydict = "(string \<times> pyval) list"

definition dict_get :: "('k \<times> 'v) list \<Rightarrow> 'k \<Rightarrow> 'v \<Rightarrow> 'v" where
  "dict_get d k dflt = (case map_of d k of None \<Rightarrow> dflt | Some v \<Rightarrow> v)"

text \<open>
  A Python \<^verbatim>\<open>str\<close> is a sequence of code points; the model holds the code points below
  256, one per \<open>char\<close>. On that range \<^verbatim>\<open>str.isspace\<close> is true of 9 to 13, 28 to 32, 133
  and 160, and \<^verbatim>\<open>str.lower\<close> moves A to Z and the capital letters 192 to 222 (215, the
  multiplication sign, apart) up by 32.
\<close>

definition isspace :: "char \<Rightarrow> bool" where
  "isspace c =
     (let n = (of_char c :: nat)
      in (9 \<le> n \<and> n \<le> 13) \<or> (28 \<le> n \<and> n \<le> 32) \<or> n = 133 \<or> n = 160)"

definition strip :: "string \<Rightarrow> string" where
  "strip s = rev (dropWhile isspace (rev (dropWhile isspace s)))"

definition lower_char :: "char \<Rightarrow> char" where
  "lower_char c =
     (let n = (of_char c :: nat)
      in if (65 \<le> n \<and> n \<le> 90) \<or> (192 \<le> n \<and> n \<le> 222 \<and> n \<noteq> 215)
         then char_of (n + 32) else c)"

definition lower :: "string \<Rightarrow> string" where
  "lower s = map lower_char s"

text \<open>\<^verbatim>\<open>s.encode("utf-8")\<close>: one byte below 128, two bytes from 128 to 255.\<close>

definition encode_utf8 :: "string \<Rightarrow> string" where
  "encode_utf8 s =
     concat (map (\<lambda>c. let n = (of_char c :: nat)
                       in if n < 128 then [c]
                          else [char_of (192 + n div 64), char_of (128 + n mod 64)]) s)"

text \<open>\<^verbatim>\<open>sep.join(xs)\<close>.\<close>

fun join :: "string \<Rightarrow> string list \<Rightarrow> string" where
  "join sep [] = []"
| "join sep [x] = x"
| "join sep (x # y # ys) = x @ sep @ join sep (y # ys)"

text \<open>\<^verbatim>\<open>HTTPException(status_code, detail)\<close>, the only exception the handlers raise.\<close>

datatype http_exception = HTTPException (status_code: int) (detail: string)

section \<open>The token library\<close>

text \<open>
  \<^verbatim>\<open>jwt.encode\<close> and \<^verbatim>\<open>jwt.decode\<close> belong to python-jose. A token is its header
  algorithm, its claims and its signature; the MAC is a parameter \<open>mac key alg claims\<close>.
  Decoding refuses a header algorithm outside \<^verbatim>\<open>algorithms\<close>, then a signature that is not
  the MAC of header and claims under the key, then an \<^verbatim>\<open>exp\<close> claim that lies before the
  current time (the library raises when \<^verbatim>\<open>exp < now\<close>), then a \<^verbatim>\<open>sub\<close> claim that is
  not a string. \<^verbatim>\<open>ExpiredSignatureError\<close> and \<^verbatim>\<open>JWTClaimsError\<close> are subclasses of
  \<^verbatim>\<open>JWTError\<close>. Times are whole seconds.
\<close>

record jwt =
  jwt_alg :: string
  jwt_claims :: pydict
  jwt_signature :: string

type_synonym mac_fn = "string \<Rightarrow> string \<Rightarrow> pydict \<Rightarrow> string"

datatype jwt_error = JWTError | ExpiredSignatureError | JWTClaimsError

definition jwt_encode :: "mac_fn \<Rightarrow> pydict \<Rightarrow> string \<Rightarrow> string \<Rightarrow> jwt" where
  "jwt_encode mac claims key algorithm =
     \<lparr>jwt_alg = algorithm, jwt_claims = claims, jwt_signature = mac key algorithm claims\<rparr>"

definition validate_exp :: "pydict \<Rightarrow> int \<Rightarrow> jwt_error option" where
  "validate_exp claims now =
     (case map_of claims ''exp'' of
        None \<Rightarrow> None
      | Some (PyInt exp) \<Rightarrow> if exp < now then Some ExpiredSignatureError else None
      | Some _ \<Rightarrow> Some JWTClaimsError)"

definition validate_sub :: "pydict \<Rightarrow> jwt_error option" where
  "validate_sub claims =
     (case map_of claims ''sub'' of
        None \<Rightarrow> None
      | Some (PyStr s) \<Rightarrow> None
      | Some _ \<Rightarrow> Some JWTClaimsError)"

definition jwt_decode :: "mac_fn \<Rightarrow> jwt \<Rightarrow> string \<Rightarrow> string list \<Rightarrow> int \<Rightarrow> jwt_error + pydict" where
  "jwt_decode mac token key algorithms now =
     (if jwt_alg token \<notin> set algorithms then Inl JWTError
      else if jwt_signature token \<noteq> mac key (jwt_alg token) (jwt_claims token) then Inl JWTError
      else case validate_exp (jwt_claims token) now of
             Some e \<Rightarrow> Inl e
           | None \<Rightarrow> (case validate_sub (jwt_claims token) of
                         Some e \<Rightarrow> Inl e
                       | None \<Rightarrow> Inr (jwt_claims token)))"

section \<open>auth\_server.py\<close>

definition JWT_ALGORITHM :: string where
  "JWT_ALGORITHM = ''HS256''"

definition JWT_EXPIRE_SECONDS :: int where
  "JWT_EXPIRE_SECONDS = 3600"

definition VALID_ROLES :: "string list" where
  "VALID_ROLES = [''user'', ''admin'', ''super_admin'']"

record UserRegister =
  reg_username :: string
  reg_password :: string
  reg_role :: string

record UserLogin =
  login_username :: string
  login_password :: string

text \<open>
  The table \<^verbatim>\<open>users\<close>: rows (username, password\_hash, role) in insertion order, the
  username unique. The \<^verbatim>\<open>id\<close> column is never read and is left out.
\<close>

type_synonym users_table = "(string \<times> string \<times> string) list"

text \<open>\<^verbatim>\<open>INSERT INTO users\<close>: \<^verbatim>\<open>sqlite3.IntegrityError\<close> (here \<open>None\<close>) on a username taken.\<close>

definition insert_user :: "users_table \<Rightarrow> string \<times> string \<times> string \<Rightarrow> users_table option" where
  "insert_user users row =
     (if fst row \<in> set (map fst users) then None else Some (users @ [row]))"

text \<open>\<^verbatim>\<open>SELECT password_hash, role FROM users WHERE username = ?\<close>, then \<^verbatim>\<open>fetchone()\<close>.\<close>

definition select_user :: "users_table \<Rightarrow> string \<Rightarrow> (string \<times> string) option" where
  "select_user users name = map_of users name"

text \<open>
  \<^verbatim>\<open>register_user\<close>. bcrypt is a parameter: \<open>hashpw\<close>, and \<open>salt\<close> for the value that
  \<^verbatim>\<open>bcrypt.gensalt()\<close> draws. The result is the exception raised, or the table after the
  insertion with the response's message.
\<close>

definition register_user ::
  "(string \<Rightarrow> string \<Rightarrow> string) \<Rightarrow> string \<Rightarrow> UserRegister \<Rightarrow> users_table
     \<Rightarrow> http_exception + (users_table \<times> string)" where
  "register_user hashpw salt user_data users =
     (if reg_username user_data = [] \<or> reg_password user_data = []
      then Inl (HTTPException 400 ''Username and password required'')
      else
        let username = lower (strip (reg_username user_data));
            password_bytes = encode_utf8 (reg_password user_data);
            password_hash = hashpw password_bytes salt
        in if reg_role user_data \<notin> set VALID_ROLES
           then Inl (HTTPException 400
                       (''Invalid role. Available roles: '' @ join '', '' VALID_ROLES))
           else case insert_user users (username, password_hash, reg_role user_data) of
                  None \<Rightarrow> Inl (HTTPException 400 ''Username already exists'')
                | Some users' \<Rightarrow>
                    Inr (users', ''User '' @ [CHR 0x27] @ username @ [CHR 0x27]
                                   @ '' registered successfully''))"

record login_response =
  access_token :: jwt
  token_type :: string
  expires_in :: int

text \<open>
  \<^verbatim>\<open>login\<close>. \<open>checkpw\<close> is \<^verbatim>\<open>bcrypt.checkpw\<close>, \<open>secret\<close> the value of \<^verbatim>\<open>JWT_SECRET\<close>
  read from the environment, \<open>now\<close> the value of \<^verbatim>\<open>int(time.time())\<close>.
\<close>

definition login ::
  "(string \<Rightarrow> string \<Rightarrow> bool) \<Rightarrow> mac_fn \<Rightarrow> string \<Rightarrow> int \<Rightarrow> UserLogin \<Rightarrow> users_table
     \<Rightarrow> http_exception + login_response" where
  "login checkpw mac secret now user_data users =
     (let username = lower (strip (login_username user_data));
          password = encode_utf8 (login_password user_data)
      in case select_user users username of
           None \<Rightarrow> Inl (HTTPException 401 ''Invalid username or password'')
         | Some (stored_hash, user_role) \<Rightarrow>
             if \<not> checkpw password stored_hash
             then Inl (HTTPException 401 ''Invalid username or password'')
             else
               let payload = [(''sub'', PyStr username),
                              (''role'', PyStr user_role),
                              (''iat'', PyInt now),
                              (''exp'', PyInt (now + JWT_EXPIRE_SECONDS)),
                              (''scope'', PyStr ''read write'')];
                   token = jwt_encode mac payload secret JWT_ALGORITHM
               in Inr \<lparr>access_token = token, token_type = ''Bearer'',
                        expires_in = JWT_EXPIRE_SECONDS\<rparr>)"

section \<open>resource\_server.py\<close>

subsection \<open>RBAC configuration\<close>

definition ROLE_HIERARCHY :: "(pyval \<times> int) list" where
  "ROLE_HIERARCHY =
     [(PyStr ''guest'', 0), (PyStr ''user'', 1), (PyStr ''admin'', 2), (PyStr ''super_admin'', 3)]"

definition ACCESS_LEVELS :: "(pyval \<times> int) list" where
  "ACCESS_LEVELS =
     [(PyStr ''public'', 0), (PyStr ''user'', 1), (PyStr ''admin'', 2), (PyStr ''super_admin'', 3)]"

definition get_user_role :: "pydict \<Rightarrow> pyval" where
  "get_user_role payload = dict_get payload ''role'' (PyStr ''guest'')"

definition can_access :: "pyval \<Rightarrow> pyval \<Rightarrow> bool" where
  "can_access user_role required_level =
     (let user_level = dict_get ROLE_HIERARCHY user_role 0;
          required_level_num = dict_get ACCESS_LEVELS required_level 0
      in user_level \<ge> required_level_num)"

subsection \<open>Token dependency\<close>

definition verify_token :: "mac_fn \<Rightarrow> string \<Rightarrow> int \<Rightarrow> jwt \<Rightarrow> http_exception + pydict" where
  "verify_token mac secret now token =
     (case jwt_decode mac token secret [JWT_ALGORITHM] now of
        Inr payload \<Rightarrow> Inr payload
      | Inl e \<Rightarrow> Inl (HTTPException 401 ''Invalid token''))"

subsection \<open>The items table\<close>

text \<open>
  A row of \<^verbatim>\<open>items\<close>. \<open>owner\<close> holds the value bound to the column (\<open>verify_token\<close> passes
  a \<^verbatim>\<open>sub\<close> only when it is a string); \<open>created_at\<close> is the \<^verbatim>\<open>CURRENT_TIMESTAMP\<close> of the
  insertion, in seconds. \<open>seq\<close> is the AUTOINCREMENT counter: the largest id handed out.
\<close>

record item =
  item_id :: int
  title :: string
  description :: string
  owner :: pyval
  access_level :: string
  created_at :: int

record items_table =
  rows :: "item list"
  seq :: int

text \<open>
  \<^verbatim>\<open>SELECT * FROM items ORDER BY created_at DESC\<close> with \<^verbatim>\<open>fetchall()\<close>: the rows by falling
  \<open>created_at\<close>; rows of one second stay in insertion order.
\<close>

definition fetchall_items :: "items_table \<Rightarrow> item list" where
  "fetchall_items db = sort_key (\<lambda>r. - created_at r) (rows db)"

text \<open>\<^verbatim>\<open>cur.lastrowid\<close> of an AUTOINCREMENT insertion: one more than every id so far.\<close>

definition lastrowid :: "items_table \<Rightarrow> int" where
  "lastrowid db = fold max (map item_id (rows db)) (seq db) + 1"

definition insert_item :: "items_table \<Rightarrow> string \<Rightarrow> string \<Rightarrow> pyval \<Rightarrow> string \<Rightarrow> int \<Rightarrow> items_table" where
  "insert_item db t d own lvl now =
     \<lparr>rows = rows db @ [\<lparr>item_id = lastrowid db, title = t, description = d, owner = own,
                            access_level = lvl, created_at = now\<rparr>],
      seq = lastrowid db\<rparr>"

subsection \<open>Routes\<close>

record CreateItem =
  ci_title :: string
  ci_description :: string
  ci_access_level :: string

record items_response =
  resp_user :: pyval
  resp_role :: pyval
  resp_items :: "item list"
  total_accessible :: nat
  total_items :: nat

text \<open>The loop of \<^verbatim>\<open>get_items\<close> that appends the accessible items.\<close>

fun accessible_loop :: "pyval \<Rightarrow> item list \<Rightarrow> item list \<Rightarrow> item list" where
  "accessible_loop user_role [] accessible_items = accessible_items"
| "accessible_loop user_role (item # all_items) accessible_items =
     (if can_access user_role (PyStr (access_level item))
      then accessible_loop user_role all_items (accessible_items @ [item])
      else accessible_loop user_role all_items accessible_items)"

definition get_items :: "pydict \<Rightarrow> items_table \<Rightarrow> items_response" where
  "get_items payload db =
     (let username = dict_get payload ''sub'' (PyStr ''anonymous'');
          user_role = get_user_role payload;
          all_items = fetchall_items db;
          accessible_items = accessible_loop user_role all_items []
      in \<lparr>resp_user = username, resp_role = user_role, resp_items = accessible_items,
          total_accessible = length accessible_items, total_items = length all_items\<rparr>)"

record create_response =
  cr_message :: string
  cr_id :: int
  cr_owner :: pyval
  cr_access_level :: string

definition create_item ::
  "CreateItem \<Rightarrow> pydict \<Rightarrow> int \<Rightarrow> items_table \<Rightarrow> http_exception + (items_table \<times> create_response)" where
  "create_item item payload now db =
     (let username = dict_get payload ''sub'' (PyStr ''anonymous'');
          user_role = get_user_role payload
      in if PyStr (ci_access_level item) \<notin> set (map fst ACCESS_LEVELS)
         then Inl (HTTPException 400 ''Invalid access level'')
         else if \<not> can_access user_role (PyStr (ci_access_level item))
         then Inl (HTTPException 403
                     (''Insufficient permissions to create '' @ ci_access_level item @ '' items''))
         else Inr (insert_item db (ci_title item) (ci_description item) username
                     (ci_access_level item) now,
                   \<lparr>cr_message = ''Item created'', cr_id = lastrowid db, cr_owner = username,
                    cr_access_level = ci_access_level item\<rparr>))"

record profile_response =
  pr_username :: pyval
  pr_message :: string

text \<open>\<^verbatim>\<open>payload.get("sub")\<close> is \<^verbatim>\<open>None\<close> when the key is absent.\<close>

definition get_profile :: "pydict \<Rightarrow> profile_response" where
  "get_profile payload =
     \<lparr>pr_username = dict_get payload ''sub'' PyNone, pr_message = ''This is your profile''\<rparr>"

section \<open>The spec's data model\<close>

text \<open>
  The spec's data model: the roles guest, user, admin, super\_admin have the ranks 0 to 3,
  the access levels public, user, admin, super\_admin have the ranks 0 to 3, and a name
  outside its table has rank 0.
\<close>

definition rank_of_role :: "string \<Rightarrow> int" where
  "rank_of_role r =
     (if r = ''guest'' then 0 else if r = ''user'' then 1 else if r = ''admin'' then 2
      else if r = ''super_admin'' then 3 else 0)"

definition rank_of_level :: "string \<Rightarrow> int" where
  "rank_of_level l =
     (if l = ''public'' then 0 else if l = ''user'' then 1 else if l = ''admin'' then 2
      else if l = ''super_admin'' then 3 else 0)"

text \<open>
  The spec's token: the claims of a token issued for username \<open>u\<close> with role \<open>r\<close> at
  time \<open>T\<close> are subject, role, issued-at, expires-at \<open>T + 3600\<close> and the fixed scope.
\<close>

definition issued_claims :: "string \<Rightarrow> string \<Rightarrow> int \<Rightarrow> pydict" where
  "issued_claims u r T =
     [(''sub'', PyStr u), (''role'', PyStr r), (''iat'', PyInt T),
      (''exp'', PyInt (T + 3600)), (''scope'', PyStr ''read write'')]"

section \<open>Properties\<close>

lemma role_rank: "dict_get ROLE_HIERARCHY (PyStr r) 0 = rank_of_role r"
  by (simp add: dict_get_def ROLE_HIERARCHY_def rank_of_role_def)

lemma level_rank: "dict_get ACCESS_LEVELS (PyStr l) 0 = rank_of_level l"
  by (simp add: dict_get_def ACCESS_LEVELS_def rank_of_level_def)

lemma get_user_role_default:
  "get_user_role payload = (case map_of payload ''role'' of None \<Rightarrow> PyStr ''guest'' | Some r \<Rightarrow> r)"
  by (simp add: get_user_role_def dict_get_def)

lemma access_level_member:
  "PyStr l \<in> set (map fst ACCESS_LEVELS) \<longleftrightarrow> l \<in> {''public'', ''user'', ''admin'', ''super_admin''}"
  by (auto simp add: ACCESS_LEVELS_def)

lemma normalize_Alice: "lower (strip ''  Alice '') = ''alice''"
  by code_simp

lemma normalize_bob: "lower (strip ''bob'') = ''bob''"
  by code_simp

subsection \<open>The access decision\<close>

text \<open>
  C1. For all strings role and level, \<open>can_access\<close> holds exactly when the rank of the role
  is at least the rank of the level, a name outside its table having rank 0. An unknown
  role may read a public item, and a user may read an item of an unknown level. The
  function is a total HOL function of its two arguments.
\<close>

theorem can_access_rank:
  "can_access (PyStr role) (PyStr level) = (rank_of_level level \<le> rank_of_role role)
   \<and> can_access (PyStr ''unknown_role'') (PyStr ''public'')
   \<and> can_access (PyStr ''user'') (PyStr ''unknown_level'')"
  by (simp add: can_access_def role_rank level_rank rank_of_role_def rank_of_level_def)

theorem can_access_rank_witness:
  "can_access (PyStr ''admin'') (PyStr ''user'') \<and> \<not> can_access (PyStr ''user'') (PyStr ''admin'')"
  using can_access_rank [of "''admin''" "''user''"] can_access_rank [of "''user''" "''admin''"]
  by (simp add: rank_of_role_def rank_of_level_def)

text \<open>
  C5. Monotonicity: when the rank of role r1 is at least the rank of role r2, every level
  that r2 may access, r1 may access too.
\<close>

theorem can_access_monotone:
  assumes "rank_of_role r2 \<le> rank_of_role r1" and "can_access (PyStr r2) l"
  shows "can_access (PyStr r1) l"
  using assms by (simp add: can_access_def role_rank)

theorem can_access_monotone_witness:
  "rank_of_role ''user'' \<le> rank_of_role ''admin''
   \<and> can_access (PyStr ''user'') (PyStr ''user'')
   \<and> can_access (PyStr ''admin'') (PyStr ''user'')"
proof -
  have r: "rank_of_role ''user'' \<le> rank_of_role ''admin''"
    by (simp add: rank_of_role_def)
  have a: "can_access (PyStr ''user'') (PyStr ''user'')"
    by (simp add: can_access_def role_rank level_rank rank_of_role_def rank_of_level_def)
  show ?thesis
    using r a can_access_monotone [OF r a] by simp
qed

text \<open>
  C6. The two tables agree: a name that is both a role and an access level (user, admin,
  super\_admin) has the same rank in both, and in each table the ranks are 0, 1, 2, 3 in
  the order of rising privilege.
\<close>

theorem rank_tables_consistent:
  "(\<forall>n r l. map_of ROLE_HIERARCHY n = Some r \<and> map_of ACCESS_LEVELS n = Some l \<longrightarrow> r = l)
   \<and> dom (map_of ROLE_HIERARCHY) \<inter> dom (map_of ACCESS_LEVELS)
       = {PyStr ''user'', PyStr ''admin'', PyStr ''super_admin''}
   \<and> map fst ROLE_HIERARCHY
       = [PyStr ''guest'', PyStr ''user'', PyStr ''admin'', PyStr ''super_admin'']
   \<and> map fst ACCESS_LEVELS
       = [PyStr ''public'', PyStr ''user'', PyStr ''admin'', PyStr ''super_admin'']
   \<and> map snd ROLE_HIERARCHY = [0, 1, 2, 3]
   \<and> map snd ACCESS_LEVELS = [0, 1, 2, 3]
   \<and> sorted_wrt (<) (map snd ROLE_HIERARCHY)
   \<and> sorted_wrt (<) (map snd ACCESS_LEVELS)"
proof -
  have agree: "\<forall>n r l. map_of ROLE_HIERARCHY n = Some r \<and> map_of ACCESS_LEVELS n = Some l \<longrightarrow> r = l"
    by (auto simp add: ROLE_HIERARCHY_def ACCESS_LEVELS_def split: if_splits)
  have common: "dom (map_of ROLE_HIERARCHY) \<inter> dom (map_of ACCESS_LEVELS)
       = {PyStr ''user'', PyStr ''admin'', PyStr ''super_admin''}"
    by (auto simp add: ROLE_HIERARCHY_def ACCESS_LEVELS_def split: if_splits)
  have tables: "map fst ROLE_HIERARCHY
       = [PyStr ''guest'', PyStr ''user'', PyStr ''admin'', PyStr ''super_admin'']"
    "map fst ACCESS_LEVELS
       = [PyStr ''public'', PyStr ''user'', PyStr ''admin'', PyStr ''super_admin'']"
    "map snd ROLE_HIERARCHY = [0, 1, 2, 3]"
    "map snd ACCESS_LEVELS = [0, 1, 2, 3]"
    by (simp_all add: ROLE_HIERARCHY_def ACCESS_LEVELS_def)
  have rising: "sorted_wrt (<) [0, 1, 2, 3 :: int]"
    by simp
  show ?thesis
    using agree common tables rising by (simp only: simp_thms)
qed

theorem rank_tables_consistent_witness:
  "map_of ROLE_HIERARCHY (PyStr ''admin'') = Some 2
   \<and> map_of ACCESS_LEVELS (PyStr ''admin'') = Some 2"
proof -
  have r: "map_of ROLE_HIERARCHY (PyStr ''admin'') = Some (snd (ROLE_HIERARCHY ! 2))"
    by (simp add: ROLE_HIERARCHY_def)
  have l: "map_of ACCESS_LEVELS (PyStr ''admin'') = Some 2"
    by (simp add: ACCESS_LEVELS_def)
  from rank_tables_consistent
  have "map_of ROLE_HIERARCHY (PyStr ''admin'') = Some (snd (ROLE_HIERARCHY ! 2))
          \<and> map_of ACCESS_LEVELS (PyStr ''admin'') = Some 2
        \<longrightarrow> snd (ROLE_HIERARCHY ! 2) = 2"
    by blast
  with r l show ?thesis by simp
qed

subsection \<open>Registration\<close>

text \<open>
  C7, as amended. \<open>register_user\<close> fails with the invalid-role error exactly when username
  and password are not empty and the role is outside \<open>VALID_ROLES\<close>, which is user, admin,
  super\_admin: the role guest is refused.
\<close>

theorem register_invalid_role_iff:
  "register_user hashpw salt user_data users
     = Inl (HTTPException 400 ''Invalid role. Available roles: user, admin, super_admin'')
   \<longleftrightarrow> reg_username user_data \<noteq> [] \<and> reg_password user_data \<noteq> []
       \<and> reg_role user_data \<notin> {''user'', ''admin'', ''super_admin''}"
  by (auto simp add: register_user_def insert_user_def Let_def VALID_ROLES_def split: option.splits)

theorem register_invalid_role_iff_witness:
  "register_user (\<lambda>p s. s @ p) ''salt''
     \<lparr>reg_username = ''carol'', reg_password = ''pw'', reg_role = ''root''\<rparr> []
     = Inl (HTTPException 400 ''Invalid role. Available roles: user, admin, super_admin'')
   \<and> register_user (\<lambda>p s. s @ p) ''salt''
     \<lparr>reg_username = ''carol'', reg_password = ''pw'', reg_role = ''admin''\<rparr> []
     \<noteq> Inl (HTTPException 400 ''Invalid role. Available roles: user, admin, super_admin'')"
  using register_invalid_role_iff [of "\<lambda>p s. s @ p" "''salt''"
          "\<lparr>reg_username = ''carol'', reg_password = ''pw'', reg_role = ''root''\<rparr>" "[]"]
        register_invalid_role_iff [of "\<lambda>p s. s @ p" "''salt''"
          "\<lparr>reg_username = ''carol'', reg_password = ''pw'', reg_role = ''admin''\<rparr>" "[]"]
  by simp

text \<open>
  C7, as the claim states it, fails: a request with a username, a password and the role
  guest is refused with the invalid-role error, whatever the table holds.
\<close>

theorem register_guest_rejected:
  "\<forall>hashpw salt users.
     register_user hashpw salt
       \<lparr>reg_username = ''bob'', reg_password = ''pw1'', reg_role = ''guest''\<rparr> users
     = Inl (HTTPException 400 ''Invalid role. Available roles: user, admin, super_admin'')"
  by (simp add: register_user_def Let_def VALID_ROLES_def)

text \<open>
  C8. The emptiness check reads the username before it is stripped: a username of three
  spaces passes it, and the row stored has the empty username.
\<close>

theorem register_whitespace_username_stored:
  "register_user hashpw salt
     \<lparr>reg_username = ''   '', reg_password = ''pw'', reg_role = ''user''\<rparr> []
   = Inr ([([], hashpw ''pw'' salt, ''user'')],
          ''User '' @ [CHR 0x27, CHR 0x27] @ '' registered successfully'')"
  by (simp add: register_user_def strip_def isspace_def lower_def encode_utf8_def
      VALID_ROLES_def insert_user_def)

subsection \<open>Login and token validation\<close>

lemma issued_token_decodes:
  "jwt_decode mac (jwt_encode mac claims secret JWT_ALGORITHM) secret [JWT_ALGORITHM] now
     = (case validate_exp claims now of
          Some e \<Rightarrow> Inl e
        | None \<Rightarrow> (case validate_sub claims of Some e \<Rightarrow> Inl e | None \<Rightarrow> Inr claims))"
  by (simp add: jwt_decode_def jwt_encode_def split: option.splits)

text \<open>
  C4. For a registered username \<open>u\<close> with stored hash \<open>h\<close> and role \<open>r\<close>, a login whose
  normalised username is \<open>u\<close> and whose password matches returns the token over exactly the
  spec's claims for \<open>u\<close>, \<open>r\<close> and the time \<open>T\<close>. Under the same secret, \<open>verify_token\<close> at
  time \<open>T\<close> returns these claims, with subject \<open>u\<close> and role \<open>r\<close>; one second past the
  lifetime the library raises \<open>ExpiredSignatureError\<close> and \<open>verify_token\<close> answers 401.
\<close>

theorem login_verify_roundtrip:
  assumes stored: "select_user users u = Some (h, r)"
      and name: "lower (strip (login_username user_data)) = u"
      and pw: "checkpw (encode_utf8 (login_password user_data)) h"
  shows "login checkpw mac secret T user_data users
           = Inr \<lparr>access_token = jwt_encode mac (issued_claims u r T) secret JWT_ALGORITHM,
                  token_type = ''Bearer'', expires_in = 3600\<rparr>
         \<and> jwt_claims (jwt_encode mac (issued_claims u r T) secret JWT_ALGORITHM)
             = issued_claims u r T
         \<and> verify_token mac secret T (jwt_encode mac (issued_claims u r T) secret JWT_ALGORITHM)
             = Inr (issued_claims u r T)
         \<and> dict_get (issued_claims u r T) ''sub'' PyNone = PyStr u
         \<and> get_user_role (issued_claims u r T) = PyStr r
         \<and> jwt_decode mac (jwt_encode mac (issued_claims u r T) secret JWT_ALGORITHM) secret
               [JWT_ALGORITHM] (T + JWT_EXPIRE_SECONDS + 1)
             = Inl ExpiredSignatureError
         \<and> verify_token mac secret (T + JWT_EXPIRE_SECONDS + 1)
               (jwt_encode mac (issued_claims u r T) secret JWT_ALGORITHM)
             = Inl (HTTPException 401 ''Invalid token'')"
proof -
  let ?claims = "issued_claims u r T"
  let ?tok = "jwt_encode mac ?claims secret JWT_ALGORITHM"
  have res: "login checkpw mac secret T user_data users
               = Inr \<lparr>access_token = ?tok, token_type = ''Bearer'', expires_in = 3600\<rparr>"
    using stored name pw
    by (simp add: login_def Let_def JWT_EXPIRE_SECONDS_def issued_claims_def)
  have claims: "jwt_claims ?tok = ?claims"
    by (simp add: jwt_encode_def)
  have exp_ok: "validate_exp ?claims T = None"
    by (simp add: validate_exp_def issued_claims_def)
  have exp_late: "validate_exp ?claims (T + JWT_EXPIRE_SECONDS + 1) = Some ExpiredSignatureError"
    by (simp add: validate_exp_def JWT_EXPIRE_SECONDS_def issued_claims_def)
  have sub_ok: "validate_sub ?claims = None"
    by (simp add: validate_sub_def issued_claims_def)
  have dec_ok: "jwt_decode mac ?tok secret [JWT_ALGORITHM] T = Inr ?claims"
    by (simp only: issued_token_decodes exp_ok sub_ok option.case)
  have dec_late: "jwt_decode mac ?tok secret [JWT_ALGORITHM] (T + JWT_EXPIRE_SECONDS + 1)
                    = Inl ExpiredSignatureError"
    by (simp only: issued_token_decodes exp_late option.case)
  have ver_ok: "verify_token mac secret T ?tok = Inr ?claims"
    by (simp add: verify_token_def dec_ok)
  have ver_late: "verify_token mac secret (T + JWT_EXPIRE_SECONDS + 1) ?tok
                    = Inl (HTTPException 401 ''Invalid token'')"
    by (simp add: verify_token_def dec_late)
  have sub: "dict_get ?claims ''sub'' PyNone = PyStr u"
    by (simp add: dict_get_def issued_claims_def)
  have role: "get_user_role ?claims = PyStr r"
    by (simp add: get_user_role_def dict_get_def issued_claims_def)
  show ?thesis
    using res claims dec_late ver_ok ver_late sub role by (simp only: simp_thms)
qed

theorem login_verify_roundtrip_witness:
  "login (\<lambda>p h. h = ''H'' @ p) (\<lambda>k a c. k @ a) ''super-secret-key'' 1000
      \<lparr>login_username = ''  Alice '', login_password = ''pw1''\<rparr>
      [(''alice'', ''Hpw1'', ''user'')]
     = Inr \<lparr>access_token = jwt_encode (\<lambda>k a c. k @ a) (issued_claims ''alice'' ''user'' 1000)
                             ''super-secret-key'' JWT_ALGORITHM,
            token_type = ''Bearer'', expires_in = 3600\<rparr>
   \<and> verify_token (\<lambda>k a c. k @ a) ''super-secret-key'' 1000
        (jwt_encode (\<lambda>k a c. k @ a) (issued_claims ''alice'' ''user'' 1000)
           ''super-secret-key'' JWT_ALGORITHM)
      = Inr (issued_claims ''alice'' ''user'' 1000)
   \<and> verify_token (\<lambda>k a c. k @ a) ''super-secret-key'' 4601
        (jwt_encode (\<lambda>k a c. k @ a) (issued_claims ''alice'' ''user'' 1000)
           ''super-secret-key'' JWT_ALGORITHM)
      = Inl (HTTPException 401 ''Invalid token'')"
proof -
  have stored: "select_user [(''alice'', ''Hpw1'', ''user'')] ''alice'' = Some (''Hpw1'', ''user'')"
    by (simp add: select_user_def)
  have name: "lower (strip (login_username \<lparr>login_username = ''  Alice '', login_password = ''pw1''\<rparr>))
                = ''alice''"
    by (simp add: normalize_Alice)
  have pw: "(\<lambda>p h. h = ''H'' @ p)
              (encode_utf8 (login_password \<lparr>login_username = ''  Alice '', login_password = ''pw1''\<rparr>))
              ''Hpw1''"
    by (simp add: encode_utf8_def)
  show ?thesis
    using login_verify_roundtrip
            [where checkpw = "\<lambda>p h. h = ''H'' @ p" and mac = "\<lambda>k a c. k @ a"
               and secret = "''super-secret-key''" and T = 1000, OF stored name pw]
    by (simp add: JWT_EXPIRE_SECONDS_def)
qed

text \<open>
  C9. A login for a username that is not in the table and a login with a password that does
  not match fail with one and the same exception: status 401 and the same detail.
\<close>

theorem login_failure_indistinguishable:
  assumes "select_user users (lower (strip (login_username user_data))) = None
           \<or> (\<exists>h r. select_user users (lower (strip (login_username user_data))) = Some (h, r)
                    \<and> \<not> checkpw (encode_utf8 (login_password user_data)) h)"
  shows "login checkpw mac secret now user_data users
           = Inl (HTTPException 401 ''Invalid username or password'')"
  using assms by (auto simp add: login_def Let_def)

theorem login_failure_indistinguishable_witness:
  "login (\<lambda>p h. h = ''H'' @ p) (\<lambda>k a c. k @ a) ''key'' 1000
     \<lparr>login_username = ''bob'', login_password = ''pw1''\<rparr> [(''alice'', ''Hpw1'', ''user'')]
     = Inl (HTTPException 401 ''Invalid username or password'')
   \<and> login (\<lambda>p h. h = ''H'' @ p) (\<lambda>k a c. k @ a) ''key'' 1000
     \<lparr>login_username = ''  Alice '', login_password = ''wrong''\<rparr> [(''alice'', ''Hpw1'', ''user'')]
     = Inl (HTTPException 401 ''Invalid username or password'')"
proof -
  let ?U = "[(''alice'', ''Hpw1'', ''user'')]"
  let ?D1 = "\<lparr>login_username = ''bob'', login_password = ''pw1''\<rparr>"
  let ?D2 = "\<lparr>login_username = ''  Alice '', login_password = ''wrong''\<rparr>"
  have p1: "select_user ?U (lower (strip (login_username ?D1))) = None
           \<or> (\<exists>h r. select_user ?U (lower (strip (login_username ?D1))) = Some (h, r)
                    \<and> \<not> (\<lambda>p h. h = ''H'' @ p) (encode_utf8 (login_password ?D1)) h)"
    by (simp add: normalize_bob select_user_def)
  have p2: "select_user ?U (lower (strip (login_username ?D2))) = None
           \<or> (\<exists>h r. select_user ?U (lower (strip (login_username ?D2))) = Some (h, r)
                    \<and> \<not> (\<lambda>p h. h = ''H'' @ p) (encode_utf8 (login_password ?D2)) h)"
    by (simp add: normalize_Alice select_user_def encode_utf8_def)
  show ?thesis
    using login_failure_indistinguishable
            [where checkpw = "\<lambda>p h. h = ''H'' @ p" and mac = "\<lambda>k a c. k @ a"
               and secret = "''key''" and now = 1000, OF p1]
          login_failure_indistinguishable
            [where checkpw = "\<lambda>p h. h = ''H'' @ p" and mac = "\<lambda>k a c. k @ a"
               and secret = "''key''" and now = 1000, OF p2]
    by (rule conjI)
qed

lemma login_only_failure:
  "login checkpw mac secret now user_data users = Inl e
     \<Longrightarrow> e = HTTPException 401 ''Invalid username or password''"
  by (auto simp add: login_def Let_def split: option.splits if_splits)

subsection \<open>Listing and creating items\<close>

lemma fold_max_ge_init: "(a::int) \<le> fold max xs a"
proof (induction xs arbitrary: a)
  case Nil
  show ?case by simp
next
  case (Cons x xs)
  have "a \<le> max x a" by simp
  also have "max x a \<le> fold max xs (max x a)" by (rule Cons.IH)
  finally show ?case by simp
qed

lemma fold_max_ge_elem: "x \<in> set xs \<Longrightarrow> (x::int) \<le> fold max xs a"
proof (induction xs arbitrary: a)
  case Nil
  then show ?case by simp
next
  case (Cons y ys)
  show ?case
  proof (cases "x = y")
    case True
    have "x \<le> max y a" using True by simp
    also have "max y a \<le> fold max ys (max y a)" by (rule fold_max_ge_init)
    finally show ?thesis by simp
  next
    case False
    with Cons.prems have "x \<in> set ys" by simp
    then show ?thesis using Cons.IH by simp
  qed
qed

lemma lastrowid_fresh: "r \<in> set (rows db) \<Longrightarrow> item_id r < lastrowid db"
  using fold_max_ge_elem [of "item_id r" "map item_id (rows db)" "seq db"]
  by (simp add: lastrowid_def)

text \<open>
  C2. The role is the payload's role claim, guest when it is absent. A requested level
  outside public, user, admin, super\_admin gives 400; otherwise a level the role cannot
  access gives 403; otherwise one row is appended, owned by the payload's subject, and
  the response carries the row's id, which is above every id in the table, and the
  requested level.
\<close>

theorem create_item_outcome:
  "get_user_role payload = (case map_of payload ''role'' of None \<Rightarrow> PyStr ''guest'' | Some r \<Rightarrow> r)
   \<and> (ci_access_level item \<notin> {''public'', ''user'', ''admin'', ''super_admin''} \<longrightarrow>
        create_item item payload now db = Inl (HTTPException 400 ''Invalid access level''))
   \<and> (ci_access_level item \<in> {''public'', ''user'', ''admin'', ''super_admin''}
        \<and> \<not> can_access (get_user_role payload) (PyStr (ci_access_level item)) \<longrightarrow>
        create_item item payload now db
          = Inl (HTTPException 403
                   (''Insufficient permissions to create '' @ ci_access_level item @ '' items'')))
   \<and> (ci_access_level item \<in> {''public'', ''user'', ''admin'', ''super_admin''}
        \<and> can_access (get_user_role payload) (PyStr (ci_access_level item)) \<longrightarrow>
        (\<exists>db' resp new.
           create_item item payload now db = Inr (db', resp)
           \<and> rows db' = rows db @ [new]
           \<and> (\<forall>s. map_of payload ''sub'' = Some s \<longrightarrow> owner new = s \<and> cr_owner resp = s)
           \<and> title new = ci_title item \<and> description new = ci_description item
           \<and> access_level new = ci_access_level item
           \<and> cr_access_level resp = ci_access_level item
           \<and> cr_id resp = item_id new
           \<and> (\<forall>r \<in> set (rows db). item_id r < item_id new)))"
  by (simp add: create_item_def get_user_role_default access_level_member insert_item_def
      dict_get_def lastrowid_fresh Let_def del: set_map)

theorem create_item_outcome_witness:
  "create_item \<lparr>ci_title = ''Notes'', ci_description = ''d'', ci_access_level = ''secret''\<rparr>
     [(''sub'', PyStr ''bob''), (''role'', PyStr ''user'')] 1000
     \<lparr>rows = [\<lparr>item_id = 7, title = ''Welcome'', description = ''w'', owner = PyStr ''system'',
                 access_level = ''public'', created_at = 10\<rparr>], seq = 7\<rparr>
     = Inl (HTTPException 400 ''Invalid access level'')
   \<and> create_item \<lparr>ci_title = ''Notes'', ci_description = ''d'', ci_access_level = ''admin''\<rparr>
     [(''sub'', PyStr ''bob''), (''role'', PyStr ''user'')] 1000
     \<lparr>rows = [\<lparr>item_id = 7, title = ''Welcome'', description = ''w'', owner = PyStr ''system'',
                 access_level = ''public'', created_at = 10\<rparr>], seq = 7\<rparr>
     = Inl (HTTPException 403 ''Insufficient permissions to create admin items'')
   \<and> (\<exists>db' resp new.
        create_item \<lparr>ci_title = ''Notes'', ci_description = ''d'', ci_access_level = ''user''\<rparr>
          [(''sub'', PyStr ''bob''), (''role'', PyStr ''user'')] 1000
          \<lparr>rows = [\<lparr>item_id = 7, title = ''Welcome'', description = ''w'',
                      owner = PyStr ''system'', access_level = ''public'', created_at = 10\<rparr>],
           seq = 7\<rparr>
          = Inr (db', resp)
        \<and> length (rows db') = 2 \<and> last (rows db') = new
        \<and> owner new = PyStr ''bob'' \<and> cr_owner resp = PyStr ''bob''
        \<and> cr_access_level resp = ''user'' \<and> cr_id resp = item_id new \<and> 7 < item_id new)"
proof -
  let ?P = "[(''sub'', PyStr ''bob''), (''role'', PyStr ''user'')]"
  let ?D = "\<lparr>rows = [\<lparr>item_id = 7, title = ''Welcome'', description = ''w'',
                        owner = PyStr ''system'', access_level = ''public'', created_at = 10\<rparr>],
             seq = 7\<rparr>"
  have role: "get_user_role ?P = PyStr ''user''"
    by (simp add: get_user_role_def dict_get_def)
  have no_admin: "\<not> can_access (PyStr ''user'') (PyStr ''admin'')"
    by (simp add: can_access_def role_rank level_rank rank_of_role_def rank_of_level_def)
  have yes_user: "can_access (PyStr ''user'') (PyStr ''user'')"
    by (simp add: can_access_def role_rank level_rank rank_of_role_def rank_of_level_def)
  have a: "create_item \<lparr>ci_title = ''Notes'', ci_description = ''d'', ci_access_level = ''secret''\<rparr>
     ?P 1000 ?D = Inl (HTTPException 400 ''Invalid access level'')"
    using create_item_outcome [where item = "\<lparr>ci_title = ''Notes'', ci_description = ''d'',
                                              ci_access_level = ''secret''\<rparr>"
                                 and payload = ?P and now = 1000 and db = ?D]
    by simp
  have b: "create_item \<lparr>ci_title = ''Notes'', ci_description = ''d'', ci_access_level = ''admin''\<rparr>
     ?P 1000 ?D = Inl (HTTPException 403 ''Insufficient permissions to create admin items'')"
    using create_item_outcome [where item = "\<lparr>ci_title = ''Notes'', ci_description = ''d'',
                                              ci_access_level = ''admin''\<rparr>"
                                 and payload = ?P and now = 1000 and db = ?D]
      no_admin
    by (simp add: role)
  have c: "\<exists>db' resp new.
        create_item \<lparr>ci_title = ''Notes'', ci_description = ''d'', ci_access_level = ''user''\<rparr>
          ?P 1000 ?D = Inr (db', resp)
        \<and> length (rows db') = 2 \<and> last (rows db') = new
        \<and> owner new = PyStr ''bob'' \<and> cr_owner resp = PyStr ''bob''
        \<and> cr_access_level resp = ''user'' \<and> cr_id resp = item_id new \<and> 7 < item_id new"
    using create_item_outcome [where item = "\<lparr>ci_title = ''Notes'', ci_description = ''d'',
                                              ci_access_level = ''user''\<rparr>"
                                 and payload = ?P and now = 1000 and db = ?D]
      yes_user
    by (simp add: role) force
  show ?thesis using a b c by (simp only: simp_thms)
qed

lemma accessible_loop_filter:
  "accessible_loop user_role all_items acc
     = acc @ filter (\<lambda>r. can_access user_role (PyStr (access_level r))) all_items"
  by (induction all_items arbitrary: acc) simp_all

lemma fetchall_newest_first:
  "sorted_wrt (\<lambda>a b. created_at b \<le> created_at a) (fetchall_items db)"
proof -
  have "sorted (map (\<lambda>r. - created_at r) (fetchall_items db))"
    by (simp add: fetchall_items_def)
  then show ?thesis
    by (simp add: sorted_map)
qed

text \<open>
  C3. The items returned are the rows of the listing that the role may access, in the
  order of the listing; the listing holds every stored row once, newest first; the two
  counts are the number of items returned and the number of stored rows.
\<close>

theorem get_items_filtered:
  "resp_items (get_items payload db)
     = filter (\<lambda>r. can_access (get_user_role payload) (PyStr (access_level r))) (fetchall_items db)
   \<and> get_user_role payload = (case map_of payload ''role'' of None \<Rightarrow> PyStr ''guest'' | Some r \<Rightarrow> r)
   \<and> mset (fetchall_items db) = mset (rows db)
   \<and> sorted_wrt (\<lambda>a b. created_at b \<le> created_at a) (fetchall_items db)
   \<and> subseq (resp_items (get_items payload db)) (fetchall_items db)
   \<and> sorted_wrt (\<lambda>a b. created_at b \<le> created_at a) (resp_items (get_items payload db))
   \<and> total_accessible (get_items payload db) = length (resp_items (get_items payload db))
   \<and> total_items (get_items payload db) = length (rows db)"
proof -
  let ?p = "\<lambda>r. can_access (get_user_role payload) (PyStr (access_level r))"
  have items: "resp_items (get_items payload db) = filter ?p (fetchall_items db)"
    by (simp add: get_items_def Let_def accessible_loop_filter)
  have perm: "mset (fetchall_items db) = mset (rows db)"
    by (simp add: fetchall_items_def)
  have len: "length (fetchall_items db) = length (rows db)"
    by (simp add: fetchall_items_def)
  have sub: "subseq (filter ?p (fetchall_items db)) (fetchall_items db)"
    by simp
  have srt: "sorted_wrt (\<lambda>a b. created_at b \<le> created_at a) (filter ?p (fetchall_items db))"
    using fetchall_newest_first by (rule sorted_wrt_filter)
  have counts: "total_accessible (get_items payload db) = length (resp_items (get_items payload db))"
    "total_items (get_items payload db) = length (rows db)"
    by (simp_all add: get_items_def Let_def len)
  show ?thesis
    using items perm sub srt counts fetchall_newest_first get_user_role_default by simp
qed

theorem get_items_filtered_witness:
  "resp_items (get_items [(''sub'', PyStr ''bob''), (''role'', PyStr ''user'')]
      \<lparr>rows = [\<lparr>item_id = 1, title = ''Welcome'', description = ''w'', owner = PyStr ''system'',
                  access_level = ''public'', created_at = 10\<rparr>,
                \<lparr>item_id = 2, title = ''Audit'', description = ''a'', owner = PyStr ''system'',
                  access_level = ''admin'', created_at = 20\<rparr>,
                \<lparr>item_id = 3, title = ''Calendar'', description = ''c'', owner = PyStr ''system'',
                  access_level = ''user'', created_at = 30\<rparr>], seq = 3\<rparr>)
     = [\<lparr>item_id = 3, title = ''Calendar'', description = ''c'', owner = PyStr ''system'',
          access_level = ''user'', created_at = 30\<rparr>,
        \<lparr>item_id = 1, title = ''Welcome'', description = ''w'', owner = PyStr ''system'',
          access_level = ''public'', created_at = 10\<rparr>]"
proof -
  let ?P = "[(''sub'', PyStr ''bob''), (''role'', PyStr ''user'')]"
  let ?D = "\<lparr>rows = [\<lparr>item_id = 1, title = ''Welcome'', description = ''w'', owner = PyStr ''system'',
                  access_level = ''public'', created_at = 10\<rparr>,
                \<lparr>item_id = 2, title = ''Audit'', description = ''a'', owner = PyStr ''system'',
                  access_level = ''admin'', created_at = 20\<rparr>,
                \<lparr>item_id = 3, title = ''Calendar'', description = ''c'', owner = PyStr ''system'',
                  access_level = ''user'', created_at = 30\<rparr>], seq = 3\<rparr>"
  have role: "get_user_role ?P = PyStr ''user''"
    by (simp add: get_user_role_def dict_get_def)
  have acc: "can_access (PyStr ''user'') (PyStr ''public'')"
    "\<not> can_access (PyStr ''user'') (PyStr ''admin'')"
    "can_access (PyStr ''user'') (PyStr ''user'')"
    by (simp_all add: can_access_def role_rank level_rank rank_of_role_def rank_of_level_def)
  have "resp_items (get_items ?P ?D)
     = filter (\<lambda>r. can_access (get_user_role ?P) (PyStr (access_level r))) (fetchall_items ?D)"
    using get_items_filtered [of ?P ?D] by (rule conjunct1)
  then show ?thesis
    by (simp add: role acc fetchall_items_def)
qed

lemma verify_token_claims:
  "verify_token mac secret now token = Inr payload \<Longrightarrow> payload = jwt_claims token"
  by (auto simp add: verify_token_def jwt_decode_def split: sum.splits if_splits option.splits)

text \<open>
  C10. For a token that \<open>verify_token\<close> accepts and whose claims have no subject, the
  listing names the user anonymous, the profile's username is \<open>None\<close>, and \<open>create_item\<close>
  passes the same two checks as ever and inserts the row with owner anonymous: it fails
  exactly when it fails for the same payload with a subject.
\<close>

theorem missing_subject_anonymous:
  assumes valid: "verify_token mac secret now token = Inr payload"
      and nosub: "map_of (jwt_claims token) ''sub'' = None"
  shows "resp_user (get_items payload db) = PyStr ''anonymous''
         \<and> pr_username (get_profile payload) = PyNone
         \<and> create_item item payload t db
             = (if ci_access_level item \<notin> {''public'', ''user'', ''admin'', ''super_admin''}
                then Inl (HTTPException 400 ''Invalid access level'')
                else if \<not> can_access (get_user_role payload) (PyStr (ci_access_level item))
                then Inl (HTTPException 403
                            (''Insufficient permissions to create '' @ ci_access_level item
                               @ '' items''))
                else Inr (insert_item db (ci_title item) (ci_description item)
                            (PyStr ''anonymous'') (ci_access_level item) t,
                          \<lparr>cr_message = ''Item created'', cr_id = lastrowid db,
                           cr_owner = PyStr ''anonymous'',
                           cr_access_level = ci_access_level item\<rparr>))
         \<and> owner (last (rows (insert_item db (ci_title item) (ci_description item)
                                 (PyStr ''anonymous'') (ci_access_level item) t)))
             = PyStr ''anonymous''
         \<and> isl (create_item item payload t db)
             = isl (create_item item ((''sub'', PyStr s) # payload) t db)"
proof -
  have p: "payload = jwt_claims token"
    using valid by (rule verify_token_claims)
  have none: "map_of payload ''sub'' = None"
    using nosub p by simp
  have anon: "dict_get payload ''sub'' (PyStr ''anonymous'') = PyStr ''anonymous''"
    using none by (simp add: dict_get_def)
  have null: "dict_get payload ''sub'' PyNone = PyNone"
    using none by (simp add: dict_get_def)
  have role: "get_user_role ((''sub'', PyStr s) # payload) = get_user_role payload"
    by (simp add: get_user_role_def dict_get_def)
  have listing: "resp_user (get_items payload db) = PyStr ''anonymous''"
    by (simp add: get_items_def Let_def anon)
  have profile: "pr_username (get_profile payload) = PyNone"
    by (simp add: get_profile_def null)
  have create: "create_item item payload t db
             = (if ci_access_level item \<notin> {''public'', ''user'', ''admin'', ''super_admin''}
                then Inl (HTTPException 400 ''Invalid access level'')
                else if \<not> can_access (get_user_role payload) (PyStr (ci_access_level item))
                then Inl (HTTPException 403
                            (''Insufficient permissions to create '' @ ci_access_level item
                               @ '' items''))
                else Inr (insert_item db (ci_title item) (ci_description item)
                            (PyStr ''anonymous'') (ci_access_level item) t,
                          \<lparr>cr_message = ''Item created'', cr_id = lastrowid db,
                           cr_owner = PyStr ''anonymous'',
                           cr_access_level = ci_access_level item\<rparr>))"
    by (simp add: create_item_def Let_def anon access_level_member del: set_map)
  have inserted: "owner (last (rows (insert_item db (ci_title item) (ci_description item)
                                 (PyStr ''anonymous'') (ci_access_level item) t)))
             = PyStr ''anonymous''"
    by (simp add: insert_item_def)
  have same: "isl (create_item item payload t db)
             = isl (create_item item ((''sub'', PyStr s) # payload) t db)"
    by (simp add: create_item_def Let_def role)
  show ?thesis
    using listing profile create inserted same by (simp only: simp_thms)
qed

theorem missing_subject_anonymous_witness:
  "verify_token (\<lambda>k a c. k @ a) ''key'' 1000
     \<lparr>jwt_alg = ''HS256'', jwt_claims = [(''role'', PyStr ''user''), (''exp'', PyInt 2000)],
      jwt_signature = ''keyHS256''\<rparr>
     = Inr [(''role'', PyStr ''user''), (''exp'', PyInt 2000)]
   \<and> resp_user (get_items [(''role'', PyStr ''user''), (''exp'', PyInt 2000)]
                  \<lparr>rows = [], seq = 0\<rparr>) = PyStr ''anonymous''
   \<and> pr_username (get_profile [(''role'', PyStr ''user''), (''exp'', PyInt 2000)]) = PyNone
   \<and> create_item \<lparr>ci_title = ''Notes'', ci_description = ''d'', ci_access_level = ''user''\<rparr>
        [(''role'', PyStr ''user''), (''exp'', PyInt 2000)] 1000 \<lparr>rows = [], seq = 0\<rparr>
      = Inr (\<lparr>rows = [\<lparr>item_id = 1, title = ''Notes'', description = ''d'',
                        owner = PyStr ''anonymous'', access_level = ''user'',
                        created_at = 1000\<rparr>], seq = 1\<rparr>,
             \<lparr>cr_message = ''Item created'', cr_id = 1, cr_owner = PyStr ''anonymous'',
              cr_access_level = ''user''\<rparr>)"
proof -
  let ?P = "[(''role'', PyStr ''user''), (''exp'', PyInt 2000)]"
  let ?tok = "\<lparr>jwt_alg = ''HS256'', jwt_claims = ?P, jwt_signature = ''keyHS256''\<rparr>"
  have valid: "verify_token (\<lambda>k a c. k @ a) ''key'' 1000 ?tok = Inr ?P"
    by (simp add: verify_token_def jwt_decode_def JWT_ALGORITHM_def validate_exp_def
        validate_sub_def)
  have nosub: "map_of (jwt_claims ?tok) ''sub'' = None"
    by simp
  have role: "get_user_role ?P = PyStr ''user''"
    by (simp add: get_user_role_def dict_get_def)
  have acc: "can_access (PyStr ''user'') (PyStr ''user'')"
    by (simp add: can_access_def role_rank level_rank rank_of_role_def rank_of_level_def)
  show ?thesis
    using valid
      missing_subject_anonymous [OF valid nosub,
        where db = "\<lparr>rows = [], seq = 0\<rparr>" and t = 1000
          and item = "\<lparr>ci_title = ''Notes'', ci_description = ''d'', ci_access_level = ''user''\<rparr>"]
    by (simp add: role acc insert_item_def lastrowid_def)
qed

end
